theory Spec2Isabelle
  imports Main
begin

section \<open>The maintainer dashboard: data model\<close>

text \<open>
  The component \<open>DashboardTab\<close> keeps two arrays of fetched records (issues and pull
  requests) and a loading flag, and derives three values from them: the statistics
  cards, the activity feed and the chart series. The records are untyped in the source
  (\<open>any[]\<close>); the model gives them the fields the component reads.

  JavaScript numbers are modelled as integers together with \<open>NaN\<close>. All numbers that
  occur are counts and time values in milliseconds (at most \<open>8.64e15\<close> in magnitude),
  which the double format represents exactly.
\<close>

datatype jsnum = NaN | Num int

text \<open>
  The value of a timestamp field of a record. A string is represented by what the
  component observes of it: it is truthy unless empty, and \<open>new Date(s).getTime()\<close> is
  the time value \<open>Date.parse\<close> assigns to it, \<open>NaN\<close> when it does not parse.
\<close>

datatype tsfield = Undefined | Null | EmptyString | DateString jsnum

fun truthy :: "tsfield \<Rightarrow> bool" where
  "truthy Undefined = False"
| "truthy Null = False"
| "truthy EmptyString = False"
| "truthy (DateString t) = True"

text \<open>\<open>new Date(v).getTime()\<close>: \<open>undefined\<close> gives an invalid date, \<open>null\<close> the epoch.\<close>

fun Date_getTime :: "tsfield \<Rightarrow> jsnum" where
  "Date_getTime Undefined = NaN"
| "Date_getTime Null = Num 0"
| "Date_getTime EmptyString = NaN"
| "Date_getTime (DateString t) = t"

record project =
  project_id :: string
  github_full_name :: string
  status :: string

record item =
  number :: int
  title :: string
  state :: string
  updated_at :: tsfield
  last_seen_at :: tsfield
  projectName :: string

record issue = item +
  github_issue_id :: int
  comments_count :: "int option"

record pr = item +
  github_pr_id :: int
  merged :: bool

text \<open>
  The expression \<open>r.updated_at ? new Date(r.updated_at) : new Date(r.last_seen_at)\<close>,
  which the component repeats wherever it needs the time of a record.
\<close>

definition effective_time :: "'a item_scheme \<Rightarrow> jsnum" where
  "effective_time r =
     (if truthy (updated_at r) then Date_getTime (updated_at r)
      else Date_getTime (last_seen_at r))"

subsection \<open>Number operations\<close>

fun js_minus :: "jsnum \<Rightarrow> jsnum \<Rightarrow> jsnum" where
  "js_minus (Num a) (Num b) = Num (a - b)"
| "js_minus _ _ = NaN"

text \<open>\<open>a >= b\<close> and \<open>a < b\<close> on numbers: false as soon as one side is \<open>NaN\<close>.\<close>

fun js_ge :: "jsnum \<Rightarrow> jsnum \<Rightarrow> bool" where
  "js_ge (Num a) (Num b) = (b \<le> a)"
| "js_ge _ _ = False"

fun js_lt :: "jsnum \<Rightarrow> jsnum \<Rightarrow> bool" where
  "js_lt (Num a) (Num b) = (a < b)"
| "js_lt _ _ = False"

subsection \<open>\<open>Array.prototype.sort\<close> with a comparator\<close>

text \<open>
  The sort calls the comparator through \<open>SortCompare\<close>, which reads a result \<open>NaN\<close> as
  \<open>+0\<close>. When the comparator is consistent on the elements (ties are reflexive,
  symmetric and transitive, and so are "before" and "after"), the sort is stable and its
  result is fixed: the model computes it by stable insertion, an element moving behind
  another one only when the comparator says so with a positive number. When the
  comparator is not consistent, the order is implementation-defined: the model takes it
  from the engine, a parameter that sees the table of comparator results and answers
  with the order as a list of positions.
\<close>

definition SortCompare :: "('a \<Rightarrow> 'a \<Rightarrow> jsnum) \<Rightarrow> 'a \<Rightarrow> 'a \<Rightarrow> int" where
  "SortCompare cmp x y = (case cmp x y of NaN \<Rightarrow> 0 | Num v \<Rightarrow> v)"

definition consistent :: "('a \<Rightarrow> 'a \<Rightarrow> jsnum) \<Rightarrow> 'a list \<Rightarrow> bool" where
  "consistent cmp xs =
     list_all (\<lambda>a. list_all (\<lambda>b. list_all (\<lambda>c.
         SortCompare cmp a a = 0
       \<and> (if SortCompare cmp a b = 0 then SortCompare cmp b a = 0 else True)
       \<and> (if SortCompare cmp a b = 0 \<and> SortCompare cmp b c = 0
          then SortCompare cmp a c = 0 else True)
       \<and> (if SortCompare cmp a b < 0 \<and> SortCompare cmp b c < 0
          then SortCompare cmp a c < 0 else True)
       \<and> (if SortCompare cmp a b > 0 \<and> SortCompare cmp b c > 0
          then SortCompare cmp a c > 0 else True)) xs) xs) xs"

fun insert_by :: "('a \<Rightarrow> 'a \<Rightarrow> jsnum) \<Rightarrow> 'a \<Rightarrow> 'a list \<Rightarrow> 'a list" where
  "insert_by cmp x [] = [x]"
| "insert_by cmp x (y # ys) =
     (if 0 < SortCompare cmp x y then y # insert_by cmp x ys else x # y # ys)"

type_synonym engine = "jsnum list list \<Rightarrow> nat list"

definition sort_by :: "engine \<Rightarrow> ('a \<Rightarrow> 'a \<Rightarrow> jsnum) \<Rightarrow> 'a list \<Rightarrow> 'a list" where
  "sort_by engine cmp xs =
     (if consistent cmp xs then foldr (insert_by cmp) xs []
      else map (\<lambda>i. xs ! i)
             (filter (\<lambda>i. i < length xs) (engine (map (\<lambda>a. map (cmp a) xs) xs))))"

section \<open>Fetching: \<open>loadData\<close>\<close>

text \<open>
  A call of the API client either rejects or resolves with a response whose list field
  may be missing (\<open>null\<close> or \<open>undefined\<close>).
\<close>

datatype 'a fetch = Rejected | Resolved "'a list option"

record api =
  getProjectIssues :: "string \<Rightarrow> issue fetch"
  getProjectPRs :: "string \<Rightarrow> pr fetch"

record dashboard =
  issues :: "issue list"
  prs :: "pr list"
  isLoading :: bool

text \<open>The comparator of both sorts: \<open>(a, b) => dateB - dateA\<close>.\<close>

definition by_recency :: "'a item_scheme \<Rightarrow> 'a item_scheme \<Rightarrow> jsnum" where
  "by_recency a b =
     (let dateA = effective_time a; dateB = effective_time b in js_minus dateB dateA)"

text \<open>One element of the first \<open>Promise.all\<close>: the tagged issues of a project.\<close>

definition fetch_issues :: "api \<Rightarrow> project \<Rightarrow> issue list" where
  "fetch_issues client project =
     (case getProjectIssues client (project_id project) of
        Rejected \<Rightarrow> []
      | Resolved response \<Rightarrow>
          map (\<lambda>issue. issue\<lparr>projectName := github_full_name project\<rparr>)
            (case response of None \<Rightarrow> [] | Some xs \<Rightarrow> xs))"

definition fetch_prs :: "api \<Rightarrow> project \<Rightarrow> pr list" where
  "fetch_prs client project =
     (case getProjectPRs client (project_id project) of
        Rejected \<Rightarrow> []
      | Resolved response \<Rightarrow>
          map (\<lambda>p. p\<lparr>projectName := github_full_name project\<rparr>)
            (case response of None \<Rightarrow> [] | Some xs \<Rightarrow> xs))"

text \<open>
  The state after one cycle. The loading flag is set at the start and cleared in the
  \<open>finally\<close> block; the intermediate value is not observable in the result.
\<close>

definition loadData :: "engine \<Rightarrow> api \<Rightarrow> project list \<Rightarrow> dashboard \<Rightarrow> dashboard" where
  "loadData engine client selectedProjects st =
     (if length selectedProjects = 0
      then st\<lparr>issues := [], prs := [], isLoading := False\<rparr>
      else
        let issuesData = map (fetch_issues client) selectedProjects;
            prsData = map (fetch_prs client) selectedProjects;
            allIssues = concat issuesData;
            allPRs = concat prsData
        in st\<lparr>issues := sort_by engine by_recency allIssues,
                prs := sort_by engine by_recency allPRs,
                isLoading := False\<rparr>)"

section \<open>The clock\<close>

text \<open>
  What the component obtains from \<open>new Date()\<close>: the time value and the local year and
  month (January is 0) the getters return for it, and the offset of local time from
  UTC that the environment uses when a date is built from local fields. All calls of
  \<open>new Date()\<close> within one rendering are modelled by the same instant.
\<close>

record clock =
  getTime :: int
  getFullYear :: int
  getMonth :: int
  localTZA :: "int \<Rightarrow> int"

section \<open>Statistics cards\<close>

datatype icon = Eye | FileText | GitPullRequest | GitMerge

record stat =
  s_id :: int
  s_title :: string
  s_subtitle :: string
  s_value :: int
  s_change :: int
  s_icon :: icon

text \<open>
  The filter of \<open>recentIssues\<close> and \<open>recentPRs\<close>:
  \<open>updatedAt >= sevenDaysAgo\<close> with \<open>sevenDaysAgo = now - 7 * 24 * 60 * 60 * 1000\<close>.
\<close>

definition recent :: "clock \<Rightarrow> 'a item_scheme \<Rightarrow> bool" where
  "recent now r =
     (let sevenDaysAgo = Num (getTime now - 7 * 24 * 60 * 60 * 1000);
          updatedAt = effective_time r
      in js_ge updatedAt sevenDaysAgo)"

text \<open>\<open>issue.comments_count || 0\<close>\<close>

definition comments_or_0 :: "issue \<Rightarrow> int" where
  "comments_or_0 issue = (case comments_count issue of None \<Rightarrow> 0 | Some c \<Rightarrow> c)"

definition stats_computed :: "clock \<Rightarrow> dashboard \<Rightarrow> stat list" where
  "stats_computed now st =
     (let recentIssues = filter (recent now) (issues st);
          recentPRs = filter (recent now) (prs st);
          openedPRs = filter (\<lambda>p. state p = ''open'') recentPRs;
          mergedPRs = filter (\<lambda>p. merged p = True) recentPRs
      in [\<lparr>s_id = 1, s_title = ''Repository Views'', s_subtitle = ''Last 7 days'',
            s_value = 0, s_change = - 100, s_icon = Eye\<rparr>,
          \<lparr>s_id = 2, s_title = ''Issue Views'', s_subtitle = ''Last 7 days'',
            s_value = int (length recentIssues), s_change = 0, s_icon = FileText\<rparr>,
          \<lparr>s_id = 3, s_title = ''Issue Applications'', s_subtitle = ''Last 7 days'',
            s_value = foldl (\<lambda>sum issue. sum + comments_or_0 issue) 0 recentIssues,
            s_change = 0, s_icon = FileText\<rparr>,
          \<lparr>s_id = 4, s_title = ''Pull Requests Opened'', s_subtitle = ''Last 7 days'',
            s_value = int (length openedPRs),
            s_change = (if length openedPRs > 0 then 100 else 0), s_icon = GitPullRequest\<rparr>,
          \<lparr>s_id = 5, s_title = ''Pull Requests Merged'', s_subtitle = ''Last 7 days'',
            s_value = int (length mergedPRs),
            s_change = (if length mergedPRs > 0 then 100 else 0), s_icon = GitMerge\<rparr>])"

text \<open>
  The window as the specification words it, \<open>[now - 7 days, now)\<close>, for comparison
  with \<open>recent\<close>.
\<close>

definition seven_day_window :: "clock \<Rightarrow> 'a item_scheme \<Rightarrow> bool" where
  "seven_day_window now r =
     (case effective_time r of
        NaN \<Rightarrow> False
      | Num t \<Rightarrow> getTime now - 604800000 \<le> t \<and> t < getTime now)"

section \<open>Relative time labels\<close>

subsection \<open>Strings and numbers\<close>

text \<open>Decimal digits of a natural number, most significant first.\<close>

definition digit_char :: "nat \<Rightarrow> char" where
  "digit_char d = ''0123456789'' ! (d mod 10)"

function digits :: "nat \<Rightarrow> string" where
  "digits n = (if n < 10 then [digit_char n] else digits (n div 10) @ [digit_char (n mod 10)])"
  by pat_completeness auto
termination
  by (relation "measure id") auto

declare digits.simps [simp del]

text \<open>
  The string of a number in a template literal. Integers below \<open>1e21\<close> in magnitude
  print in decimal notation; larger ones do not occur.
\<close>

fun js_str :: "jsnum \<Rightarrow> string" where
  "js_str NaN = ''NaN''"
| "js_str (Num i) = (if i < 0 then CHR ''-'' # digits (nat (- i)) else digits (nat i))"

text \<open>\<open>Math.floor(a / k)\<close> for a positive integer \<open>k\<close>.\<close>

fun js_floor_div :: "jsnum \<Rightarrow> int \<Rightarrow> jsnum" where
  "js_floor_div NaN k = NaN"
| "js_floor_div (Num a) k = Num (a div k)"

text \<open>\<open>s.includes(p)\<close>\<close>

fun startsWith :: "string \<Rightarrow> string \<Rightarrow> bool" where
  "startsWith s [] = True"
| "startsWith [] (p # ps) = False"
| "startsWith (c # cs) (p # ps) = (c = p \<and> startsWith cs ps)"

fun js_includes :: "string \<Rightarrow> string \<Rightarrow> bool" where
  "js_includes [] p = (p = [])"
| "js_includes (c # cs) p = (startsWith (c # cs) p \<or> js_includes cs p)"

text \<open>
  \<open>parseInt(s)\<close> without a radix: leading white space and a sign are skipped, a prefix
  \<open>0x\<close> selects base 16, and the longest run of digits is read; \<open>NaN\<close> when there is
  none. White space outside ASCII is not modelled.
\<close>

definition is_space :: "char \<Rightarrow> bool" where
  "is_space c = (c \<in> set [CHR 0x09, CHR 0x0A, CHR 0x0B, CHR 0x0C, CHR 0x0D, CHR 0x20])"

definition is_digit :: "char \<Rightarrow> bool" where
  "is_digit c = (c \<in> set ''0123456789'')"

definition digit_val :: "char \<Rightarrow> nat" where
  "digit_val c = of_char c - 48"

definition is_hex_digit :: "char \<Rightarrow> bool" where
  "is_hex_digit c = (c \<in> set ''0123456789abcdefABCDEF'')"

definition hex_val :: "char \<Rightarrow> nat" where
  "hex_val c =
     (if is_digit c then of_char c - 48
      else if c \<in> set ''abcdef'' then of_char c - 87
      else of_char c - 55)"

definition number_of :: "nat \<Rightarrow> (char \<Rightarrow> nat) \<Rightarrow> string \<Rightarrow> nat" where
  "number_of radix val ds = foldl (\<lambda>acc c. acc * radix + val c) 0 ds"

definition parseInt :: "string \<Rightarrow> jsnum" where
  "parseInt s =
     (let s1 = dropWhile is_space s;
          negative = (s1 \<noteq> [] \<and> hd s1 = CHR ''-'');
          s2 = (if s1 \<noteq> [] \<and> (hd s1 = CHR ''-'' \<or> hd s1 = CHR ''+'') then tl s1 else s1);
          hex = (startsWith s2 ''0x'' \<or> startsWith s2 ''0X'');
          ds = (if hex then takeWhile is_hex_digit (drop 2 s2) else takeWhile is_digit s2);
          n = (if hex then number_of 16 hex_val ds else number_of 10 digit_val ds)
      in if ds = [] then NaN
         else Num (if negative then - int n else int n))"

text \<open>\<open>parseInt(s) || 0\<close>\<close>

fun or_0 :: "jsnum \<Rightarrow> int" where
  "or_0 NaN = 0"
| "or_0 (Num i) = i"

subsection \<open>\<open>formatTimeAgo\<close> and \<open>parseTimeAgo\<close>\<close>

text \<open>The plural ending of a label: \<open>n !== 1 ? 's' : ''\<close>.\<close>

definition plural :: "jsnum \<Rightarrow> string" where
  "plural n = (if n \<noteq> Num 1 then ''s'' else [])"

definition formatTimeAgo :: "clock \<Rightarrow> jsnum \<Rightarrow> string" where
  "formatTimeAgo now date =
     (let diffMs = js_minus (Num (getTime now)) date;
          diffMins = js_floor_div diffMs 60000;
          diffHours = js_floor_div diffMs 3600000;
          diffDays = js_floor_div diffMs 86400000;
          diffMonths = js_floor_div diffDays 30
      in if js_lt diffMins (Num 1) then ''just now''
         else if js_lt diffMins (Num 60)
           then js_str diffMins @ '' minute'' @ plural diffMins @ '' ago''
         else if js_lt diffHours (Num 24)
           then js_str diffHours @ '' hour'' @ plural diffHours @ '' ago''
         else if js_lt diffDays (Num 30)
           then js_str diffDays @ '' day'' @ plural diffDays @ '' ago''
         else js_str diffMonths @ '' month'' @ plural diffMonths @ '' ago'')"

definition parseTimeAgo :: "clock \<Rightarrow> string \<Rightarrow> int" where
  "parseTimeAgo now timeAgo =
     (if js_includes timeAgo ''minute'' then
        (let mins = or_0 (parseInt timeAgo) in getTime now - mins * 60000)
      else if js_includes timeAgo ''hour'' then
        (let hours = or_0 (parseInt timeAgo) in getTime now - hours * 3600000)
      else if js_includes timeAgo ''day'' then
        (let days = or_0 (parseInt timeAgo) in getTime now - days * 86400000)
      else if js_includes timeAgo ''month'' then
        (let months = or_0 (parseInt timeAgo) in getTime now - months * 30 * 86400000)
      else getTime now)"

section \<open>The bindings of the component body\<close>

text \<open>
  The names that the body of \<open>DashboardTab\<close> binds with \<open>const\<close>, in source order (lines
  22, 23, 24, 25, 32, 106, 168, 210, 226, 248, 276, 320 and 364). They are all
  declarations of one block, the function body.
\<close>

definition DashboardTab_bindings :: "string list" where
  "DashboardTab_bindings =
     [''theme'', ''issues'', ''setIssues'', ''prs'', ''setPrs'', ''isLoading'', ''setIsLoading'',
      ''loadData'', ''stats'', ''activities'', ''formatTimeAgo'', ''parseTimeAgo'', ''chartData'',
      ''stats'', ''activities'', ''chartData'']"

datatype js_error = SyntaxError | ReferenceError

text \<open>
  A block that declares a name twice with \<open>const\<close> is rejected before any of it runs: it
  is a syntax error if the lexically declared names of a function body contain a
  duplicate.
\<close>

definition DashboardTab_early_error :: "js_error option" where
  "DashboardTab_early_error =
     (if distinct DashboardTab_bindings then None else Some SyntaxError)"

text \<open>
  A \<open>const\<close> binding holds its value only once its declaration has been evaluated;
  reading it before throws a \<open>ReferenceError\<close>. \<open>useMemo\<close> runs its callback while
  the declaration that contains it is evaluated, so what the callback of \<open>user\<close> finds
  in the binding \<open>name\<close> is the value \<open>v\<close> if \<open>name\<close> is declared above \<open>user\<close>, and
  nothing otherwise.
\<close>

definition binding_at :: "string \<Rightarrow> string \<Rightarrow> 'a \<Rightarrow> 'a option" where
  "binding_at user name v =
     (if name \<in> set (takeWhile (\<lambda>n. n \<noteq> user) DashboardTab_bindings) then Some v else None)"

section \<open>Activity feed\<close>

datatype activity_type = Pr | Issue

record activity =
  a_id :: int
  a_type :: activity_type
  a_number :: int
  a_title :: string
  a_label :: "string option"
  a_timeAgo :: string

text \<open>
  The object pushed for a pull request, and the one pushed for an issue. Both read the
  binding \<open>formatTimeAgo\<close> when they come to the property \<open>timeAgo\<close>.
\<close>

definition pr_activity :: "(jsnum \<Rightarrow> string) option \<Rightarrow> pr \<Rightarrow> js_error + activity" where
  "pr_activity formatTimeAgo_binding p =
     (case formatTimeAgo_binding of
        None \<Rightarrow> Inl ReferenceError
      | Some format \<Rightarrow>
          Inr \<lparr>a_id = github_pr_id p, a_type = Pr, a_number = number p, a_title = title p,
               a_label = Some (if merged p then ''Merged''
                               else if state p = ''open'' then ''Open'' else ''Closed''),
               a_timeAgo = (if truthy (updated_at p)
                            then format (Date_getTime (updated_at p))
                            else format (Date_getTime (last_seen_at p)))\<rparr>)"

definition issue_activity :: "(jsnum \<Rightarrow> string) option \<Rightarrow> issue \<Rightarrow> js_error + activity" where
  "issue_activity formatTimeAgo_binding i =
     (case formatTimeAgo_binding of
        None \<Rightarrow> Inl ReferenceError
      | Some format \<Rightarrow>
          Inr \<lparr>a_id = github_issue_id i, a_type = Issue, a_number = number i, a_title = title i,
               a_label = (case comments_count i of
                            None \<Rightarrow> None
                          | Some c \<Rightarrow>
                              if c > 0
                              then Some (js_str (Num c) @ '' comment''
                                     @ (if c \<noteq> 1 then ''s'' else []))
                              else None),
               a_timeAgo = (if truthy (updated_at i)
                            then format (Date_getTime (updated_at i))
                            else format (Date_getTime (last_seen_at i)))\<rparr>)"

text \<open>\<open>xs.forEach(x => { combined.push(f(x)) })\<close>: the first exception ends the loop.\<close>

fun forEach_push :: "('a \<Rightarrow> js_error + activity) \<Rightarrow> 'a list \<Rightarrow> activity list
    \<Rightarrow> js_error + activity list" where
  "forEach_push f [] combined = Inr combined"
| "forEach_push f (x # xs) combined =
     (case f x of Inl e \<Rightarrow> Inl e | Inr a \<Rightarrow> forEach_push f xs (combined @ [a]))"

text \<open>The comparator of the feed, \<open>(a, b) => timeB - timeA\<close>, once \<open>parseTimeAgo\<close> is read.\<close>

definition by_timeAgo :: "(string \<Rightarrow> int) \<Rightarrow> activity \<Rightarrow> activity \<Rightarrow> jsnum" where
  "by_timeAgo parse a b =
     (let timeA = parse (a_timeAgo a);
          timeB = parse (a_timeAgo b)
      in Num (timeB - timeA))"

text \<open>
  \<open>combined.sort(...)\<close>: the comparator, and with it the binding \<open>parseTimeAgo\<close>, is used
  only when there are at least two entries.
\<close>

definition sort_combined :: "engine \<Rightarrow> (string \<Rightarrow> int) option \<Rightarrow> activity list
    \<Rightarrow> js_error + activity list" where
  "sort_combined engine parseTimeAgo_binding combined =
     (if length combined < 2 then Inr combined
      else case parseTimeAgo_binding of
             None \<Rightarrow> Inl ReferenceError
           | Some parse \<Rightarrow> Inr (sort_by engine (by_timeAgo parse) combined))"

text \<open>The callback of the \<open>useMemo\<close> of \<open>activities\<close>, for given states of the two bindings.\<close>

definition activities_callback :: "engine \<Rightarrow> (jsnum \<Rightarrow> string) option \<Rightarrow> (string \<Rightarrow> int) option
    \<Rightarrow> dashboard \<Rightarrow> js_error + activity list" where
  "activities_callback engine formatTimeAgo_binding parseTimeAgo_binding st =
     (case forEach_push (pr_activity formatTimeAgo_binding) (take 10 (prs st)) [] of
        Inl e \<Rightarrow> Inl e
      | Inr combined \<Rightarrow>
     (case forEach_push (issue_activity formatTimeAgo_binding) (take 10 (issues st)) combined of
        Inl e \<Rightarrow> Inl e
      | Inr combined \<Rightarrow>
     (case sort_combined engine parseTimeAgo_binding combined of
        Inl e \<Rightarrow> Inl e
      | Inr combined \<Rightarrow> Inr (take 5 combined))))"

text \<open>
  The computed \<open>activities\<close> of the component: the callback runs where line 168 stands,
  with the two helpers in the state their declarations (lines 210 and 226) have then.
\<close>

definition activities_computed :: "engine \<Rightarrow> clock \<Rightarrow> dashboard \<Rightarrow> js_error + activity list" where
  "activities_computed engine now st =
     activities_callback engine
       (binding_at ''activities'' ''formatTimeAgo'' (formatTimeAgo now))
       (binding_at ''activities'' ''parseTimeAgo'' (parseTimeAgo now))
       st"

section \<open>Chart series\<close>

subsection \<open>\<open>new Date(year, month, 1)\<close>\<close>

text \<open>
  The day number of a calendar date as ECMAScript's \<open>MakeDay\<close> computes it: a month
  outside \<open>0..11\<close> carries into the year. The date is read as local time, so the time
  value is the local one less the offset of the environment. A year from 0 to 99 stands
  for 1900 to 1999. Time values beyond the range of \<open>Date\<close> (about 270000 years around
  1970) are not modelled.
\<close>

definition InLeapYear :: "int \<Rightarrow> bool" where
  "InLeapYear y = (y mod 4 = 0 \<and> (y mod 100 \<noteq> 0 \<or> y mod 400 = 0))"

definition DayFromYear :: "int \<Rightarrow> int" where
  "DayFromYear y =
     365 * (y - 1970) + (y - 1969) div 4 - (y - 1901) div 100 + (y - 1601) div 400"

definition month_first_day :: "int \<Rightarrow> bool \<Rightarrow> int" where
  "month_first_day mn leap =
     [0, 31, 59, 90, 120, 151, 181, 212, 243, 273, 304, 334] ! nat mn
       + (if leap \<and> 2 \<le> mn then 1 else 0)"

definition MakeDay :: "int \<Rightarrow> int \<Rightarrow> int \<Rightarrow> int" where
  "MakeDay year month date =
     (let ym = year + month div 12;
          mn = month mod 12
      in DayFromYear ym + month_first_day mn (InLeapYear ym) + date - 1)"

definition Date_local :: "clock \<Rightarrow> int \<Rightarrow> int \<Rightarrow> int \<Rightarrow> jsnum" where
  "Date_local env year month date =
     (let yr = (if 0 \<le> year \<and> year \<le> 99 then 1900 + year else year);
          t = MakeDay yr month date * 86400000
      in Num (t - localTZA env t))"

subsection \<open>\<open>chartData\<close>\<close>

record chartpoint =
  c_month :: string
  c_applications :: int
  c_merged :: int

definition monthDate :: "clock \<Rightarrow> nat \<Rightarrow> jsnum" where
  "monthDate now index = Date_local now (getFullYear now) (getMonth now - (5 - int index)) 1"

definition nextMonth :: "clock \<Rightarrow> nat \<Rightarrow> jsnum" where
  "nextMonth now index = Date_local now (getFullYear now) (getMonth now - (4 - int index)) 1"

text \<open>The filter of \<open>monthIssues\<close> and \<open>monthPRs\<close>.\<close>

definition in_month :: "clock \<Rightarrow> nat \<Rightarrow> 'a item_scheme \<Rightarrow> bool" where
  "in_month now index r =
     (let createdAt = effective_time r
      in js_ge createdAt (monthDate now index) \<and> js_lt createdAt (nextMonth now index))"

definition chartData_computed :: "clock \<Rightarrow> dashboard \<Rightarrow> chartpoint list" where
  "chartData_computed now st =
     (let months = [''May'', ''Jun'', ''Jul'', ''Aug'', ''Sep'', ''Oct'']
      in map (\<lambda>(index, month).
               let monthIssues = filter (in_month now index) (issues st);
                   monthPRs = filter (in_month now index) (prs st);
                   mergedPRs = filter (\<lambda>p. merged p) monthPRs
               in \<lparr>c_month = month,
                   c_applications = foldl (\<lambda>sum issue. sum + comments_or_0 issue) 0 monthIssues,
                   c_merged = int (length mergedPRs)\<rparr>)
           (enumerate 0 months))"

text \<open>
  The six months that end with the month of \<open>now\<close>, as (year, month) pairs with
  January 0, and their short English names.
\<close>

definition trailing_months :: "clock \<Rightarrow> (int \<times> int) list" where
  "trailing_months now =
     map (\<lambda>k. ((getFullYear now * 12 + getMonth now - k) div 12,
               (getFullYear now * 12 + getMonth now - k) mod 12))
       [5, 4, 3, 2, 1, 0]"

definition month_name :: "int \<Rightarrow> string" where
  "month_name mn =
     [''Jan'', ''Feb'', ''Mar'', ''Apr'', ''May'', ''Jun'',
      ''Jul'', ''Aug'', ''Sep'', ''Oct'', ''Nov'', ''Dec''] ! nat mn"

section \<open>The specification's wording of derived notions\<close>

text \<open>
  The coarse bucket of a time: elapsed time falls into "just now" (less than a minute),
  minutes (less than 60), hours (less than 24), days (less than 30), else months (days
  divided by 30, floored). \<open>render\<close> is the label of a bucket.
\<close>

datatype time_unit = JustNow | Minutes | Hours | Days | Months

definition bucket :: "clock \<Rightarrow> int \<Rightarrow> time_unit \<times> int" where
  "bucket now t =
     (let elapsed = getTime now - t in
      if elapsed div 60000 < 1 then (JustNow, 0)
      else if elapsed div 60000 < 60 then (Minutes, elapsed div 60000)
      else if elapsed div 3600000 < 24 then (Hours, elapsed div 3600000)
      else if elapsed div 86400000 < 30 then (Days, elapsed div 86400000)
      else (Months, elapsed div 86400000 div 30))"

fun render :: "time_unit \<times> int \<Rightarrow> string" where
  "render (JustNow, k) = ''just now''"
| "render (Minutes, k) = js_str (Num k) @ '' minute'' @ plural (Num k) @ '' ago''"
| "render (Hours, k) = js_str (Num k) @ '' hour'' @ plural (Num k) @ '' ago''"
| "render (Days, k) = js_str (Num k) @ '' day'' @ plural (Num k) @ '' ago''"
| "render (Months, k) = js_str (Num k) @ '' month'' @ plural (Num k) @ '' ago''"

text \<open>
  The activity feed: the first ten pull requests and the first ten issues, each mapped
  to an entry (a pull request is labelled "Merged" if merged, else "Open" or "Closed"
  from its state; an issue is labelled with its number of comments if that is
  positive; the time label is the formatted effective timestamp), merged, sorted by
  descending parsed time label and cut to five.
\<close>

definition pr_entry_spec :: "clock \<Rightarrow> pr \<Rightarrow> activity" where
  "pr_entry_spec now p =
     \<lparr>a_id = github_pr_id p, a_type = Pr, a_number = number p, a_title = title p,
      a_label = Some (if merged p then ''Merged''
                      else if state p = ''open'' then ''Open'' else ''Closed''),
      a_timeAgo = formatTimeAgo now (effective_time p)\<rparr>"

definition issue_entry_spec :: "clock \<Rightarrow> issue \<Rightarrow> activity" where
  "issue_entry_spec now i =
     \<lparr>a_id = github_issue_id i, a_type = Issue, a_number = number i, a_title = title i,
      a_label = (if 0 < comments_or_0 i
                 then Some (js_str (Num (comments_or_0 i))
                        @ (if comments_or_0 i = 1 then '' comment'' else '' comments''))
                 else None),
      a_timeAgo = formatTimeAgo now (effective_time i)\<rparr>"

definition feed_spec :: "clock \<Rightarrow> dashboard \<Rightarrow> activity list" where
  "feed_spec now st =
     take 5 (sort_key (\<lambda>e. - parseTimeAgo now (a_timeAgo e))
       (map (pr_entry_spec now) (take 10 (prs st))
        @ map (issue_entry_spec now) (take 10 (issues st))))"

section \<open>Example data\<close>

text \<open>
  A clock at 2023-11-14 22:13:20 UTC and one at 2024-01-15 10:00:00 UTC, both in an
  environment whose local time is UTC.
\<close>

definition clock_nov :: clock where
  "clock_nov = \<lparr>getTime = 1700000000000, getFullYear = 2023, getMonth = 10,
                 localTZA = (\<lambda>_. 0)\<rparr>"

definition clock_jan :: clock where
  "clock_jan = \<lparr>getTime = 1705312800000, getFullYear = 2024, getMonth = 0,
                 localTZA = (\<lambda>_. 0)\<rparr>"

text \<open>An issue updated one minute after \<open>clock_nov\<close>, as a server clock ahead of the
  browser's produces it.\<close>

definition issue_ahead :: issue where
  "issue_ahead =
     \<lparr>number = 7, title = ''Crash on start'', state = ''open'',
      updated_at = DateString (Num 1700000060000), last_seen_at = Undefined,
      projectName = [], github_issue_id = 1007, comments_count = Some 3\<rparr>"

text \<open>An issue last seen on 2023-07-22, and one updated on 2024-01-11.\<close>

definition issue_july :: issue where
  "issue_july =
     \<lparr>number = 3, title = ''Typo in README'', state = ''closed'',
      updated_at = Null, last_seen_at = DateString (Num 1690000000000),
      projectName = [], github_issue_id = 1003, comments_count = Some 2\<rparr>"

definition issue_january :: issue where
  "issue_january =
     \<lparr>number = 12, title = ''Add dark mode'', state = ''open'',
      updated_at = DateString (Num 1705000000000), last_seen_at = Undefined,
      projectName = [], github_issue_id = 1012, comments_count = Some 4\<rparr>"





text \<open>A merged pull request updated two hours before \<open>clock_nov\<close>.\<close>

definition pr_merged :: pr where
  "pr_merged =
     \<lparr>number = 21, title = ''Fix login redirect'', state = ''closed'',
      updated_at = DateString (Num 1699992800000), last_seen_at = Undefined,
      projectName = ''acme/app'', github_pr_id = 2021, merged = True\<rparr>"


section \<open>Auxiliary facts\<close>

subsection \<open>Sums\<close>

lemma foldl_plus_sum_list:
  "foldl (\<lambda>sum x. sum + f x) a xs = a + sum_list (map f xs)" for a :: int
  by (induction xs arbitrary: a) simp_all

subsection \<open>Digits, \<open>parseInt\<close> and \<open>includes\<close>\<close>

lemma digit_char_is_digit: "is_digit (digit_char d)"
proof -
  have "d mod 10 < length ''0123456789''" by simp
  then have "''0123456789'' ! (d mod 10) \<in> set ''0123456789''" by (rule nth_mem)
  then show ?thesis by (simp only: is_digit_def digit_char_def)
qed

lemma digit_val_digit_char: "d < 10 \<Longrightarrow> digit_val (digit_char d) = d"
proof -
  assume "d < 10"
  then have "d \<in> {0, 1, 2, 3, 4, 5, 6, 7, 8, 9}" by auto
  then show ?thesis by (auto simp add: digit_val_def digit_char_def)
qed

lemma digits_all_digit: "\<forall>c \<in> set (digits n). is_digit c"
  by (induction n rule: digits.induct) (subst digits.simps, simp add: digit_char_is_digit)

lemma digits_not_Nil: "digits n \<noteq> []"
  by (subst digits.simps) simp

lemma number_of_snoc: "number_of r v (ds @ [c]) = number_of r v ds * r + v c"
  by (simp add: number_of_def)

lemma number_of_digits: "number_of 10 digit_val (digits n) = n"
proof (induction n rule: digits.induct)
  case (1 n)
  show ?case
  proof (cases "n < 10")
    case True
    then show ?thesis
      by (subst digits.simps) (simp add: number_of_def digit_val_digit_char)
  next
    case False
    with 1 have ih: "number_of 10 digit_val (digits (n div 10)) = n div 10" by simp
    have "digits n = digits (n div 10) @ [digit_char (n mod 10)]"
      using False by (subst digits.simps) simp
    then show ?thesis
      by (simp add: number_of_snoc ih digit_val_digit_char)
  qed
qed

lemma is_digit_cases:
  "is_digit c \<Longrightarrow> \<not> is_space c \<and> c \<noteq> CHR ''-'' \<and> c \<noteq> CHR ''+'' \<and> c \<noteq> CHR ''x'' \<and> c \<noteq> CHR ''X''
     \<and> c \<noteq> CHR ''m'' \<and> c \<noteq> CHR ''h'' \<and> c \<noteq> CHR ''d''"
  by (auto simp add: is_digit_def is_space_def)

lemma startsWith_second:
  "startsWith (c # s) [p, q] \<Longrightarrow> s \<noteq> [] \<and> hd s = q"
  by (cases s) auto

text \<open>A decimal number followed by a blank parses to that number.\<close>

lemma parseInt_digits:
  "parseInt (digits n @ CHR '' '' # rest) = Num (int n)"
proof -
  obtain c cs where dc: "digits n = c # cs"
    using digits_not_Nil by (cases "digits n") auto
  have all: "\<forall>x \<in> set (c # cs). is_digit x"
    using digits_all_digit [of n] dc by simp
  then have c: "is_digit c" by simp
  let ?s = "digits n @ CHR '' '' # rest"
  have s: "?s = c # (cs @ CHR '' '' # rest)" by (simp add: dc)
  have s1: "dropWhile is_space ?s = ?s"
    using c by (simp add: s is_digit_cases)
  have second: "hd (cs @ CHR '' '' # rest) \<noteq> CHR ''x'' \<and> hd (cs @ CHR '' '' # rest) \<noteq> CHR ''X''"
    using all by (cases cs) (auto simp add: is_digit_cases)
  have nohex: "\<not> startsWith ?s ''0x''" "\<not> startsWith ?s ''0X''"
    using second startsWith_second [of c "cs @ CHR '' '' # rest"] by (auto simp add: s)
  have sp: "\<not> is_digit (CHR '' '')" by (simp add: is_digit_def)
  have tw: "takeWhile is_digit ?s = digits n"
    using digits_all_digit [of n] sp by (simp add: takeWhile_append2)
  have hd: "hd ?s = c" and ne: "?s \<noteq> []" by (simp_all add: dc)
  have sign: "c \<noteq> CHR ''-''" "c \<noteq> CHR ''+''" using c by (simp_all add: is_digit_cases)
  show ?thesis
    unfolding parseInt_def Let_def s1
    by (simp only: hd ne sign nohex tw number_of_digits digits_not_Nil simp_thms if_False if_True)
qed

lemma includes_skip:
  "js_includes (xs @ ys) (p # ps) = js_includes ys (p # ps)" if "\<forall>c \<in> set xs. c \<noteq> p"
  using that by (induction xs) auto

lemma includes_digits:
  "p = CHR ''m'' \<or> p = CHR ''h'' \<or> p = CHR ''d'' \<Longrightarrow>
   js_includes (digits n @ ys) (p # ps) = js_includes ys (p # ps)"
  by (rule includes_skip) (use digits_all_digit [of n] is_digit_cases in blast)

subsection \<open>Parsing a formatted label\<close>

lemma parse_label:
  assumes "0 \<le> k"
  shows "parseTimeAgo now (js_str (Num k) @ '' minute'' @ plural (Num k) @ '' ago'') = getTime now - k * 60000"
    and "parseTimeAgo now (js_str (Num k) @ '' hour'' @ plural (Num k) @ '' ago'') = getTime now - k * 3600000"
    and "parseTimeAgo now (js_str (Num k) @ '' day'' @ plural (Num k) @ '' ago'') = getTime now - k * 86400000"
    and "parseTimeAgo now (js_str (Num k) @ '' month'' @ plural (Num k) @ '' ago'') = getTime now - k * 30 * 86400000"
  using assms
  by (simp_all add: parseTimeAgo_def plural_def includes_digits parseInt_digits)

lemma format_Num:
  "formatTimeAgo now (Num t) =
     (let d = getTime now - t in
      if d div 60000 < 1 then ''just now''
      else if d div 60000 < 60
        then js_str (Num (d div 60000)) @ '' minute'' @ plural (Num (d div 60000)) @ '' ago''
      else if d div 3600000 < 24
        then js_str (Num (d div 3600000)) @ '' hour'' @ plural (Num (d div 3600000)) @ '' ago''
      else if d div 86400000 < 30
        then js_str (Num (d div 86400000)) @ '' day'' @ plural (Num (d div 86400000)) @ '' ago''
      else js_str (Num (d div 86400000 div 30)) @ '' month''
             @ plural (Num (d div 86400000 div 30)) @ '' ago'')"
  by (simp add: formatTimeAgo_def Let_def)

lemma parse_just_now: "parseTimeAgo now ''just now'' = getTime now"
  by (simp add: parseTimeAgo_def)

lemma div_at_least:
  fixes d :: int
  assumes "0 < a" and "0 < b" and "\<not> d div a < k" and "b \<le> a * k"
  shows "1 \<le> d div b"
proof -
  have "d = a * (d div a) + d mod a" by simp
  moreover have "0 \<le> d mod a" using assms(1) by simp
  moreover have "a * k \<le> a * (d div a)" using assms(1,3) by (simp add: mult_left_mono)
  ultimately have "b \<le> d" using assms(4) by linarith
  then have "0 < d div b" using assms(2) by (simp add: pos_imp_zdiv_pos_iff)
  then show ?thesis by simp
qed

lemma unit_steps:
  fixes d :: int
  shows "\<not> d div 60000 < 60 \<Longrightarrow> 1 \<le> d div 3600000"
    and "\<not> d div 3600000 < 24 \<Longrightarrow> 1 \<le> d div 86400000"
    and "\<not> d div 86400000 < 30 \<Longrightarrow> 1 \<le> d div 86400000 div 30"
proof -
  show "\<not> d div 60000 < 60 \<Longrightarrow> 1 \<le> d div 3600000"
    by (rule div_at_least [of 60000 _ _ 60]) simp_all
  show "\<not> d div 3600000 < 24 \<Longrightarrow> 1 \<le> d div 86400000"
    by (rule div_at_least [of 3600000 _ _ 24]) simp_all
  show "\<not> d div 86400000 < 30 \<Longrightarrow> 1 \<le> d div 86400000 div 30"
    by (rule div_at_least [of 1 _ "d div 86400000" 30]) simp_all
qed

lemma parse_format:
  "parseTimeAgo now (formatTimeAgo now (Num t)) =
     (let d = getTime now - t in
      if d div 60000 < 1 then getTime now
      else if d div 60000 < 60 then getTime now - d div 60000 * 60000
      else if d div 3600000 < 24 then getTime now - d div 3600000 * 3600000
      else if d div 86400000 < 30 then getTime now - d div 86400000 * 86400000
      else getTime now - d div 86400000 div 30 * 30 * 86400000)"
proof -
  let ?d = "getTime now - t"
  consider (now) "?d div 60000 < 1"
    | (mins) "\<not> ?d div 60000 < 1" "?d div 60000 < 60"
    | (hours) "\<not> ?d div 60000 < 1" "\<not> ?d div 60000 < 60" "?d div 3600000 < 24"
    | (days) "\<not> ?d div 60000 < 1" "\<not> ?d div 60000 < 60" "\<not> ?d div 3600000 < 24"
        "?d div 86400000 < 30"
    | (months) "\<not> ?d div 60000 < 1" "\<not> ?d div 60000 < 60" "\<not> ?d div 3600000 < 24"
        "\<not> ?d div 86400000 < 30"
    by blast
  then show ?thesis
  proof cases
    case now
    then show ?thesis by (simp only: format_Num parse_just_now Let_def if_True)
  next
    case mins
    then have "0 \<le> ?d div 60000" by simp
    from parse_label(1) [OF this] mins show ?thesis
      by (simp only: format_Num Let_def if_True if_False)
  next
    case hours
    then have "0 \<le> ?d div 3600000" using unit_steps(1) [of ?d] by simp
    from parse_label(2) [OF this] hours show ?thesis
      by (simp only: format_Num Let_def if_True if_False)
  next
    case days
    then have "0 \<le> ?d div 86400000" using unit_steps(2) [of ?d] by simp
    from parse_label(3) [OF this] days show ?thesis
      by (simp only: format_Num Let_def if_True if_False)
  next
    case months
    then have "0 \<le> ?d div 86400000 div 30" using unit_steps(3) [of ?d] by simp
    from parse_label(4) [OF this] months show ?thesis
      by (simp only: format_Num Let_def if_True if_False)
  qed
qed

lemma format_bucket: "formatTimeAgo now (Num t) = render (bucket now t)"
  unfolding format_Num bucket_def Let_def by (simp only: render.simps if_distrib [of render])

lemma bucket_elapsed:
  fixes k :: int
  shows "bucket now (getTime now) = (JustNow, 0)"
    and "1 \<le> k \<Longrightarrow> k < 60 \<Longrightarrow> bucket now (getTime now - k * 60000) = (Minutes, k)"
    and "1 \<le> k \<Longrightarrow> k < 24 \<Longrightarrow> bucket now (getTime now - k * 3600000) = (Hours, k)"
    and "1 \<le> k \<Longrightarrow> k < 30 \<Longrightarrow> bucket now (getTime now - k * 86400000) = (Days, k)"
    and "1 \<le> k \<Longrightarrow> bucket now (getTime now - k * 30 * 86400000) = (Months, k)"
  by (simp_all add: bucket_def Let_def)

lemma bucket_round_trip:
  "bucket now (parseTimeAgo now (formatTimeAgo now (Num t))) = bucket now t"
proof -
  let ?d = "getTime now - t"
  consider (now) "?d div 60000 < 1"
    | (mins) "\<not> ?d div 60000 < 1" "?d div 60000 < 60"
    | (hours) "\<not> ?d div 60000 < 1" "\<not> ?d div 60000 < 60" "?d div 3600000 < 24"
    | (days) "\<not> ?d div 60000 < 1" "\<not> ?d div 60000 < 60" "\<not> ?d div 3600000 < 24"
        "?d div 86400000 < 30"
    | (months) "\<not> ?d div 60000 < 1" "\<not> ?d div 60000 < 60" "\<not> ?d div 3600000 < 24"
        "\<not> ?d div 86400000 < 30"
    by blast
  then show ?thesis
  proof cases
    case now
    then have "parseTimeAgo now (formatTimeAgo now (Num t)) = getTime now"
      by (simp only: parse_format Let_def if_True)
    moreover from now have "bucket now t = (JustNow, 0)"
      by (simp only: bucket_def Let_def if_True)
    ultimately show ?thesis by (simp only: bucket_elapsed(1))
  next
    case mins
    then have "parseTimeAgo now (formatTimeAgo now (Num t)) = getTime now - ?d div 60000 * 60000"
      by (simp only: parse_format Let_def if_True if_False)
    moreover from mins have "bucket now t = (Minutes, ?d div 60000)"
      by (simp only: bucket_def Let_def if_True if_False)
    moreover from mins have "1 \<le> ?d div 60000" by simp
    ultimately show ?thesis using mins(2) by (simp only: bucket_elapsed(2))
  next
    case hours
    then have "parseTimeAgo now (formatTimeAgo now (Num t)) = getTime now - ?d div 3600000 * 3600000"
      by (simp only: parse_format Let_def if_True if_False)
    moreover from hours have "bucket now t = (Hours, ?d div 3600000)"
      by (simp only: bucket_def Let_def if_True if_False)
    moreover from hours have "1 \<le> ?d div 3600000" using unit_steps(1) [of ?d] by simp
    ultimately show ?thesis using hours(3) by (simp only: bucket_elapsed(3))
  next
    case days
    then have "parseTimeAgo now (formatTimeAgo now (Num t)) = getTime now - ?d div 86400000 * 86400000"
      by (simp only: parse_format Let_def if_True if_False)
    moreover from days have "bucket now t = (Days, ?d div 86400000)"
      by (simp only: bucket_def Let_def if_True if_False)
    moreover from days have "1 \<le> ?d div 86400000" using unit_steps(2) [of ?d] by simp
    ultimately show ?thesis using days(4) by (simp only: bucket_elapsed(4))
  next
    case months
    then have "parseTimeAgo now (formatTimeAgo now (Num t)) =
        getTime now - ?d div 86400000 div 30 * 30 * 86400000"
      by (simp only: parse_format Let_def if_True if_False)
    moreover from months have "bucket now t = (Months, ?d div 86400000 div 30)"
      by (simp only: bucket_def Let_def if_True if_False)
    moreover from months have "1 \<le> ?d div 86400000 div 30" using unit_steps(3) [of ?d] by simp
    ultimately show ?thesis by (simp only: bucket_elapsed(5))
  qed
qed

subsection \<open>Sorting with a consistent comparator\<close>

lemma sort_by_Nil: "sort_by engine cmp [] = []"
  by (simp add: sort_by_def consistent_def)


lemma consistent_by_timeAgo: "consistent (by_timeAgo parse) xs"
  by (simp add: consistent_def list_all_iff SortCompare_def by_timeAgo_def Let_def)

lemma insert_by_timeAgo:
  "insert_by (by_timeAgo parse) x ys = insort_key (\<lambda>e. - parse (a_timeAgo e)) x ys"
  by (induction ys) (auto simp add: by_timeAgo_def SortCompare_def Let_def)

lemma sort_by_timeAgo:
  "sort_by engine (by_timeAgo parse) xs = sort_key (\<lambda>e. - parse (a_timeAgo e)) xs"
proof -
  have "foldr (insert_by (by_timeAgo parse)) xs [] = sort_key (\<lambda>e. - parse (a_timeAgo e)) xs"
    by (induction xs) (simp_all add: insert_by_timeAgo)
  then show ?thesis by (simp add: sort_by_def consistent_by_timeAgo)
qed

subsection \<open>The feed's loop\<close>

lemma forEach_push_total:
  assumes "\<And>x. f x = Inr (g x)"
  shows "forEach_push f xs acc = Inr (acc @ map g xs)"
  by (induction xs arbitrary: acc) (simp_all add: assms)

lemma forEach_push_throws:
  assumes "\<And>x. f x = Inl e"
  shows "forEach_push f xs acc = (if xs = [] then Inr acc else Inl e)"
  by (cases xs) (simp_all add: assms)

lemma pr_activity_spec: "pr_activity (Some (formatTimeAgo now)) p = Inr (pr_entry_spec now p)"
  by (simp add: pr_activity_def pr_entry_spec_def effective_time_def)

lemma issue_activity_spec:
  "issue_activity (Some (formatTimeAgo now)) i = Inr (issue_entry_spec now i)"
  by (auto simp add: issue_activity_def issue_entry_spec_def effective_time_def comments_or_0_def
      split: option.split)

text \<open>
  With both helpers initialised, the callback computes the feed of the specification.
\<close>

lemma activities_callback_initialised:
  "activities_callback engine (Some (formatTimeAgo now)) (Some (parseTimeAgo now)) st =
     Inr (feed_spec now st)"
proof -
  have s: "sort_combined engine (Some parse) combined =
      Inr (sort_key (\<lambda>e. - parse (a_timeAgo e)) combined)" for parse combined
  proof (cases "length combined < 2")
    case True
    then have "combined = [] \<or> (\<exists>a. combined = [a])"
      by (cases combined) (auto simp add: length_Suc_conv)
    then show ?thesis by (auto simp add: sort_combined_def)
  next
    case False
    then show ?thesis by (simp add: sort_combined_def sort_by_timeAgo)
  qed
  show ?thesis
    unfolding activities_callback_def feed_spec_def
    by (simp add: forEach_push_total [of _ "pr_entry_spec now"]
        forEach_push_total [of _ "issue_entry_spec now"]
        pr_activity_spec issue_activity_spec s)
qed

text \<open>
  Where the component runs it, neither helper is initialised: the callback throws as
  soon as there is a pull request or an issue.
\<close>

lemma helpers_uninitialised:
  "binding_at ''activities'' ''formatTimeAgo'' f = None"
  "binding_at ''activities'' ''parseTimeAgo'' g = None"
  by (simp_all add: binding_at_def DashboardTab_bindings_def)

lemma activities_computed_throws:
  "activities_computed engine now st =
     (if prs st = [] \<and> issues st = [] then Inr [] else Inl ReferenceError)"
proof -
  have p: "forEach_push (pr_activity None) xs acc = (if xs = [] then Inr acc else Inl ReferenceError)"
    for xs acc
    by (rule forEach_push_throws) (simp add: pr_activity_def)
  have i: "forEach_push (issue_activity None) xs acc = (if xs = [] then Inr acc else Inl ReferenceError)"
    for xs acc
    by (rule forEach_push_throws) (simp add: issue_activity_def)
  show ?thesis
    unfolding activities_computed_def helpers_uninitialised activities_callback_def p i
    by (simp add: sort_combined_def)
qed

subsection \<open>Calendar months\<close>

lemma div_succ_bounds:
  fixes x n :: int
  assumes "0 < n"
  shows "x div n \<le> (x + 1) div n" and "(x + 1) div n \<le> x div n + 1"
proof -
  show "x div n \<le> (x + 1) div n" using assms by (simp add: zdiv_mono1)
  have "(x + 1) div n \<le> (x + n) div n" using assms by (intro zdiv_mono1) simp_all
  also have "\<dots> = x div n + 1" using assms by (simp add: div_add_self2)
  finally show "(x + 1) div n \<le> x div n + 1" .
qed

lemma DayFromYear_step: "DayFromYear y + 364 \<le> DayFromYear (y + 1)"
proof -
  have a: "(y - 1969) div 4 \<le> (y + 1 - 1969) div 4"
    using div_succ_bounds(1) [of 4 "y - 1969"] by (simp add: algebra_simps)
  have b: "(y + 1 - 1901) div 100 \<le> (y - 1901) div 100 + 1"
    using div_succ_bounds(2) [of 100 "y - 1901"] by (simp add: algebra_simps)
  have c: "(y - 1601) div 400 \<le> (y + 1 - 1601) div 400"
    using div_succ_bounds(1) [of 400 "y - 1601"] by (simp add: algebra_simps)
  have "a \<le> a' \<Longrightarrow> b' \<le> b + 1 \<Longrightarrow> c \<le> c' \<Longrightarrow>
      365 * (y - 1970) + a - b + c + 364 \<le> 365 * (y + 1 - 1970) + a' - b' + c'"
    for a a' b b' c c' :: int by (simp add: algebra_simps)
  from this [OF a b c] show ?thesis unfolding DayFromYear_def .
qed

lemma month_first_day_step:
  assumes "0 \<le> r" "r < 11"
  shows "month_first_day r leap + 28 \<le> month_first_day (r + 1) leap"
proof -
  from assms have "r = 0 \<or> r = 1 \<or> r = 2 \<or> r = 3 \<or> r = 4 \<or> r = 5 \<or> r = 6 \<or> r = 7
      \<or> r = 8 \<or> r = 9 \<or> r = 10" by presburger
  then show ?thesis by (elim disjE) (simp_all add: month_first_day_def)
qed

lemma month_first_day_bounds: "month_first_day 0 leap = 0" "month_first_day 11 leap \<le> 335"
  by (simp_all add: month_first_day_def)

lemma MakeDay_unfold:
  "m div 12 = q \<Longrightarrow> m mod 12 = r \<Longrightarrow>
   MakeDay y m d = DayFromYear (y + q) + month_first_day r (InLeapYear (y + q)) + d - 1"
  by (simp add: MakeDay_def Let_def)

lemma next_month_index:
  fixes m :: int
  shows "(m + 1) div 12 = m div 12 + (m mod 12 + 1) div 12"
    and "(m + 1) mod 12 = (m mod 12 + 1) mod 12"
proof -
  have m: "m + 1 = (m mod 12 + 1) + (m div 12) * 12" by simp
  show "(m + 1) div 12 = m div 12 + (m mod 12 + 1) div 12"
    by (subst m) (simp only: div_mult_self1 [of 12] simp_thms num.distinct zero_neq_numeral)
  show "(m + 1) mod 12 = (m mod 12 + 1) mod 12"
    by (subst m) (simp only: mod_mult_self1)
qed

lemma MakeDay_step: "MakeDay y m 1 + 28 \<le> MakeDay y (m + 1) 1"
proof -
  define q where "q = m div 12"
  define r where "r = m mod 12"
  have m: "m div 12 = q" "m mod 12 = r" by (simp_all add: q_def r_def)
  have r: "0 \<le> r" "r < 12" by (simp_all add: r_def)
  have a: "MakeDay y m 1 = DayFromYear (y + q) + month_first_day r (InLeapYear (y + q))"
    using MakeDay_unfold [OF m, of y 1] by simp
  show ?thesis
  proof (cases "r = 11")
    case True
    have n: "(m + 1) div 12 = q + 1" "(m + 1) mod 12 = 0"
      unfolding next_month_index [of m] m True by simp_all
    have b: "MakeDay y (m + 1) 1 = DayFromYear (y + (q + 1))"
      using MakeDay_unfold [OF n, of y 1] by (simp add: month_first_day_bounds(1))
    have "DayFromYear (y + q) + 364 \<le> DayFromYear (y + (q + 1))"
      using DayFromYear_step [of "y + q"] by (simp only: add.assoc)
    moreover have "month_first_day r (InLeapYear (y + q)) \<le> 335"
      unfolding True by (rule month_first_day_bounds(2))
    ultimately show ?thesis unfolding a b by linarith
  next
    case False
    then have lt: "r < 11" using r by linarith
    have n: "(m + 1) div 12 = q" "(m + 1) mod 12 = r + 1"
      unfolding next_month_index [of m] m using r(1) lt by simp_all
    have b: "MakeDay y (m + 1) 1 =
        DayFromYear (y + q) + month_first_day (r + 1) (InLeapYear (y + q))"
      using MakeDay_unfold [OF n, of y 1] by simp
    from month_first_day_step [OF r(1) lt, of "InLeapYear (y + q)"]
    show ?thesis unfolding a b by linarith
  qed
qed

lemma Date_local_step:
  assumes "\<forall>t. \<bar>localTZA env t\<bar> \<le> 86400000"
  shows "\<exists>a b. Date_local env y m 1 = Num a \<and> Date_local env y (m + 1) 1 = Num b \<and> a < b"
proof -
  define yr where "yr = (if 0 \<le> y \<and> y \<le> 99 then 1900 + y else y)"
  define a where "a = MakeDay yr m 1 * 86400000"
  define b where "b = MakeDay yr (m + 1) 1 * 86400000"
  have "MakeDay yr m 1 + 28 \<le> MakeDay yr (m + 1) 1" by (rule MakeDay_step)
  then have "a + 28 * 86400000 \<le> b" unfolding a_def b_def by linarith
  moreover have "\<bar>localTZA env a\<bar> \<le> 86400000" "\<bar>localTZA env b\<bar> \<le> 86400000"
    using assms by blast+
  ultimately have "a - localTZA env a < b - localTZA env b" by linarith
  moreover have "Date_local env y m 1 = Num (a - localTZA env a)"
    by (simp add: Date_local_def Let_def a_def yr_def)
  moreover have "Date_local env y (m + 1) 1 = Num (b - localTZA env b)"
    by (simp add: Date_local_def Let_def b_def yr_def)
  ultimately show ?thesis by blast
qed

lemma nextMonth_is_monthDate: "nextMonth now index = monthDate now (Suc index)"
proof -
  have "getMonth now - (4 - int index) = getMonth now - (5 - int (Suc index))" by simp
  then show ?thesis unfolding nextMonth_def monthDate_def by (rule arg_cong)
qed

lemma month_bounds_increase:
  assumes "\<forall>t. \<bar>localTZA now t\<bar> \<le> 86400000"
  shows "\<exists>a b. monthDate now index = Num a \<and> nextMonth now index = Num b \<and> a < b"
proof -
  have e: "getMonth now - (4 - int index) = getMonth now - (5 - int index) + 1" by simp
  show ?thesis
    unfolding monthDate_def nextMonth_def e
    by (rule Date_local_step [OF assms])
qed

text \<open>Two adjacent half-open intervals add up to their union.\<close>

lemma adjacent_buckets:
  fixes f :: "'a \<Rightarrow> int"
  assumes "a \<le> b" "b \<le> c"
  shows "sum_list (map f (filter (\<lambda>x. js_ge (g x) (Num a) \<and> js_lt (g x) (Num b)) xs))
       + sum_list (map f (filter (\<lambda>x. js_ge (g x) (Num b) \<and> js_lt (g x) (Num c)) xs))
       = sum_list (map f (filter (\<lambda>x. js_ge (g x) (Num a) \<and> js_lt (g x) (Num c)) xs))"
proof (induction xs)
  case Nil
  show ?case by simp
next
  case (Cons x xs)
  show ?case
  proof (cases "g x")
    case NaN
    with Cons show ?thesis by simp
  next
    case (Num t)
    with Cons assms show ?thesis by auto
  qed
qed

lemma empty_bucket:
  "filter (\<lambda>x. js_ge (g x) (Num a) \<and> js_lt (g x) (Num a)) xs = []"
proof -
  have "\<not> (js_ge v (Num a) \<and> js_lt v (Num a))" for v by (cases v) simp_all
  then show ?thesis by simp
qed

lemma buckets_total:
  fixes f :: "'a \<Rightarrow> int" and B :: "nat \<Rightarrow> int"
  assumes "\<And>i. B i \<le> B (Suc i)"
  shows "(\<Sum>i\<leftarrow>[0..<n]. sum_list (map f (filter (\<lambda>x. js_ge (g x) (Num (B i)) \<and> js_lt (g x) (Num (B (Suc i)))) xs)))
     = sum_list (map f (filter (\<lambda>x. js_ge (g x) (Num (B 0)) \<and> js_lt (g x) (Num (B n))) xs))"
proof (induction n)
  case 0
  show ?case by (simp add: empty_bucket)
next
  case (Suc n)
  have "B 0 \<le> B n" by (induction n) (auto intro: order_trans assms)
  from adjacent_buckets [OF this assms [of n], of f g xs] Suc show ?case by simp
qed

lemma chart_applications:
  "map c_applications (chartData_computed now st) =
     map (\<lambda>i. sum_list (map comments_or_0 (filter (in_month now i) (issues st)))) [0..<6]"
proof -
  have "[0..<6] = [0, Suc 0, Suc (Suc 0), Suc (Suc (Suc 0)), Suc (Suc (Suc (Suc 0))),
      Suc (Suc (Suc (Suc (Suc 0))))]"
    by (simp add: upt_rec)
  then show ?thesis
    by (simp add: chartData_computed_def Let_def foldl_plus_sum_list)
qed


section \<open>Failure isolation\<close>

lemma loadData_issues:
  "issues (loadData engine client ps st) =
     sort_by engine by_recency (concat (map (fetch_issues client) ps))"
  by (simp add: loadData_def Let_def sort_by_Nil)

lemma loadData_prs:
  "prs (loadData engine client ps st) =
     sort_by engine by_recency (concat (map (fetch_prs client) ps))"
  by (simp add: loadData_def Let_def sort_by_Nil)

lemma loadData_isLoading: "isLoading (loadData engine client ps st) = False"
  by (simp add: loadData_def Let_def)

lemma fetch_prs_issues_update:
  "fetch_prs (client\<lparr>getProjectIssues := f\<rparr>) = fetch_prs client"
  by (rule ext) (simp add: fetch_prs_def)

lemma fetch_issues_prs_update:
  "fetch_issues (client\<lparr>getProjectPRs := f\<rparr>) = fetch_issues client"
  by (rule ext) (simp add: fetch_issues_def)

text \<open>
  C8. When the issue fetch of the project \<open>k\<close> rejects, the cycle still ends with the
  loading flag cleared; the issues are the sorted records of all projects with
  nothing from \<open>k\<close>, and the pull requests are what they are without the
  failure. The same holds with the roles of issues and pull requests exchanged.
\<close>

theorem fetch_failure_isolated:
  "issues (loadData engine (client\<lparr>getProjectIssues := (getProjectIssues client)(k := Rejected)\<rparr>) ps st) =
     sort_by engine by_recency
       (concat (map (\<lambda>q. if project_id q = k then [] else fetch_issues client q) ps))
   \<and> prs (loadData engine (client\<lparr>getProjectIssues := (getProjectIssues client)(k := Rejected)\<rparr>) ps st) =
     prs (loadData engine client ps st)
   \<and> isLoading (loadData engine (client\<lparr>getProjectIssues := (getProjectIssues client)(k := Rejected)\<rparr>) ps st) = False
   \<and> prs (loadData engine (client\<lparr>getProjectPRs := (getProjectPRs client)(k := Rejected)\<rparr>) ps st) =
     sort_by engine by_recency
       (concat (map (\<lambda>q. if project_id q = k then [] else fetch_prs client q) ps))
   \<and> issues (loadData engine (client\<lparr>getProjectPRs := (getProjectPRs client)(k := Rejected)\<rparr>) ps st) =
     issues (loadData engine client ps st)
   \<and> isLoading (loadData engine (client\<lparr>getProjectPRs := (getProjectPRs client)(k := Rejected)\<rparr>) ps st) = False"
proof -
  have i: "fetch_issues (client\<lparr>getProjectIssues := (getProjectIssues client)(k := Rejected)\<rparr>)
      = (\<lambda>q. if project_id q = k then [] else fetch_issues client q)"
    by (rule ext) (simp add: fetch_issues_def)
  have p: "fetch_prs (client\<lparr>getProjectPRs := (getProjectPRs client)(k := Rejected)\<rparr>)
      = (\<lambda>q. if project_id q = k then [] else fetch_prs client q)"
    by (rule ext) (simp add: fetch_prs_def)
  show ?thesis
    unfolding loadData_issues loadData_prs loadData_isLoading
    using i p by (simp add: fetch_prs_issues_update fetch_issues_prs_update)
qed

text \<open>
  C10. A response that resolves without its list (\<open>response.issues\<close>, respectively
  \<open>response.prs\<close>, is \<open>null\<close> or \<open>undefined\<close>) counts as the empty list for that
  project: the cycle ends with the loading flag cleared, the other projects contribute
  as before and the other collection is unchanged.
\<close>

theorem missing_list_is_empty:
  "issues (loadData engine (client\<lparr>getProjectIssues := (getProjectIssues client)(k := Resolved None)\<rparr>) ps st) =
     sort_by engine by_recency
       (concat (map (\<lambda>q. if project_id q = k then [] else fetch_issues client q) ps))
   \<and> prs (loadData engine (client\<lparr>getProjectIssues := (getProjectIssues client)(k := Resolved None)\<rparr>) ps st) =
     prs (loadData engine client ps st)
   \<and> isLoading (loadData engine (client\<lparr>getProjectIssues := (getProjectIssues client)(k := Resolved None)\<rparr>) ps st) = False
   \<and> prs (loadData engine (client\<lparr>getProjectPRs := (getProjectPRs client)(k := Resolved None)\<rparr>) ps st) =
     sort_by engine by_recency
       (concat (map (\<lambda>q. if project_id q = k then [] else fetch_prs client q) ps))
   \<and> issues (loadData engine (client\<lparr>getProjectPRs := (getProjectPRs client)(k := Resolved None)\<rparr>) ps st) =
     issues (loadData engine client ps st)
   \<and> isLoading (loadData engine (client\<lparr>getProjectPRs := (getProjectPRs client)(k := Resolved None)\<rparr>) ps st) = False"
proof -
  have i: "fetch_issues (client\<lparr>getProjectIssues := (getProjectIssues client)(k := Resolved None)\<rparr>)
      = (\<lambda>q. if project_id q = k then [] else fetch_issues client q)"
    by (rule ext) (simp add: fetch_issues_def)
  have p: "fetch_prs (client\<lparr>getProjectPRs := (getProjectPRs client)(k := Resolved None)\<rparr>)
      = (\<lambda>q. if project_id q = k then [] else fetch_prs client q)"
    by (rule ext) (simp add: fetch_prs_def)
  show ?thesis
    unfolding loadData_issues loadData_prs loadData_isLoading
    using i p by (simp add: fetch_prs_issues_update fetch_issues_prs_update)
qed

section \<open>What is rendered\<close>

text \<open>
  C1. The claim has the fixed values declared at lines 276, 320 and 364 reach the
  rendering. The body of the component declares \<open>stats\<close>, \<open>activities\<close> and \<open>chartData\<close>
  twice in one block, which is a syntax error: the component is rejected before it
  runs, for every input, and neither the fixed nor the computed values are rendered.
\<close>

theorem DashboardTab_redeclares:
  "DashboardTab_early_error = Some SyntaxError
   \<and> filter (\<lambda>n. 1 < count_list DashboardTab_bindings n) (remdups DashboardTab_bindings) =
       [''stats'', ''activities'', ''chartData'']"
  by (simp add: DashboardTab_early_error_def DashboardTab_bindings_def)

section \<open>The seven-day window\<close>

text \<open>
  C2, as stated: a record counts toward the seven-day metrics exactly when its effective
  timestamp lies in \<open>[now - 7 days, now)\<close>. This fails for an issue whose timestamp is one
  minute after the clock: it is counted (the "Issue Views" metric is 1) although it lies
  outside the window.
\<close>

theorem seven_day_window_counterexample:
  "recent clock_nov issue_ahead \<and> \<not> seven_day_window clock_nov issue_ahead
   \<and> s_value (stats_computed clock_nov \<lparr>issues = [issue_ahead], prs = [], isLoading = False\<rparr> ! 1) = 1"
  by (simp add: recent_def seven_day_window_def clock_nov_def issue_ahead_def effective_time_def
      stats_computed_def Let_def)

text \<open>
  C2, amended. A record counts toward the seven-day metrics exactly when its effective
  timestamp is a valid time not earlier than \<open>now - 7 days\<close>; there is no upper bound.
  A record at exactly \<open>now - 7 days\<close> counts, one a millisecond earlier does not.
\<close>

theorem recent_lower_bound_only:
  "recent now r = (case effective_time r of NaN \<Rightarrow> False | Num t \<Rightarrow> getTime now - 604800000 \<le> t)
   \<and> recent now (r\<lparr>updated_at := DateString (Num (getTime now - 604800000))\<rparr>)
   \<and> \<not> recent now (r\<lparr>updated_at := DateString (Num (getTime now - 604800000 - 1))\<rparr>)"
  by (simp add: recent_def effective_time_def Let_def split: jsnum.split)

section \<open>The statistics cards\<close>

text \<open>
  C4, as stated: metric 2 is the number of issues in the window \<open>[now - 7 days, now)\<close>
  and metric 3 the sum of their comment counts. This fails for the one issue stamped a
  minute after the clock: the metrics are 1 and 3, while no issue lies in the window.
\<close>

theorem stats_window_counterexample:
  "s_value (stats_computed clock_nov \<lparr>issues = [issue_ahead], prs = [], isLoading = False\<rparr> ! 1) = 1
   \<and> s_value (stats_computed clock_nov \<lparr>issues = [issue_ahead], prs = [], isLoading = False\<rparr> ! 2) = 3
   \<and> int (length (filter (seven_day_window clock_nov) [issue_ahead])) = 0
   \<and> sum_list (map (\<lambda>i. case comments_count i of None \<Rightarrow> 0 | Some c \<Rightarrow> c)
        (filter (seven_day_window clock_nov) [issue_ahead])) = 0"
  by (simp add: recent_def seven_day_window_def clock_nov_def issue_ahead_def effective_time_def
      stats_computed_def comments_or_0_def Let_def)

text \<open>
  C4, amended. The computed statistics are exactly five cards in a fixed order:
  "Repository Views" with value 0 and change -100; "Issue Views" with the number of
  issues whose effective timestamp is a valid time not earlier than \<open>now - 7 days\<close>
  (there is no upper bound); "Issue Applications" with the sum of \<open>comments_count\<close> over
  these issues, 0 for a missing count; "Pull Requests Opened" with the number of pull
  requests with such a timestamp whose state is "open"; and "Pull Requests Merged" with
  the number of pull requests with such a timestamp that are merged.
\<close>

theorem stats_computed_metrics:
  "stats_computed now st =
     [\<lparr>s_id = 1, s_title = ''Repository Views'', s_subtitle = ''Last 7 days'',
       s_value = 0, s_change = - 100, s_icon = Eye\<rparr>,
      \<lparr>s_id = 2, s_title = ''Issue Views'', s_subtitle = ''Last 7 days'',
       s_value = int (length (filter
         (\<lambda>i. case effective_time i of NaN \<Rightarrow> False | Num t \<Rightarrow> getTime now - 604800000 \<le> t)
         (issues st))),
       s_change = 0, s_icon = FileText\<rparr>,
      \<lparr>s_id = 3, s_title = ''Issue Applications'', s_subtitle = ''Last 7 days'',
       s_value = sum_list (map (\<lambda>i. case comments_count i of None \<Rightarrow> 0 | Some c \<Rightarrow> c) (filter
         (\<lambda>i. case effective_time i of NaN \<Rightarrow> False | Num t \<Rightarrow> getTime now - 604800000 \<le> t)
         (issues st))),
       s_change = 0, s_icon = FileText\<rparr>,
      \<lparr>s_id = 4, s_title = ''Pull Requests Opened'', s_subtitle = ''Last 7 days'',
       s_value = int (length (filter
         (\<lambda>p. (case effective_time p of NaN \<Rightarrow> False | Num t \<Rightarrow> getTime now - 604800000 \<le> t)
              \<and> state p = ''open'')
         (prs st))),
       s_change = (if 0 < length (filter
         (\<lambda>p. (case effective_time p of NaN \<Rightarrow> False | Num t \<Rightarrow> getTime now - 604800000 \<le> t)
              \<and> state p = ''open'')
         (prs st)) then 100 else 0),
       s_icon = GitPullRequest\<rparr>,
      \<lparr>s_id = 5, s_title = ''Pull Requests Merged'', s_subtitle = ''Last 7 days'',
       s_value = int (length (filter
         (\<lambda>p. (case effective_time p of NaN \<Rightarrow> False | Num t \<Rightarrow> getTime now - 604800000 \<le> t)
              \<and> merged p)
         (prs st))),
       s_change = (if 0 < length (filter
         (\<lambda>p. (case effective_time p of NaN \<Rightarrow> False | Num t \<Rightarrow> getTime now - 604800000 \<le> t)
              \<and> merged p)
         (prs st)) then 100 else 0),
       s_icon = GitMerge\<rparr>]
   \<and> length (stats_computed now st) = 5"
proof -
  have w: "recent now = (\<lambda>r. case effective_time r of NaN \<Rightarrow> False
      | Num t \<Rightarrow> getTime now - 604800000 \<le> t)"
    for now :: clock
    by (rule ext) (simp add: recent_def Let_def split: jsnum.split)
  have c: "comments_or_0 = (\<lambda>i. case comments_count i of None \<Rightarrow> 0 | Some c \<Rightarrow> c)"
    by (rule ext) (simp add: comments_or_0_def)
  have o: "filter (\<lambda>p. state p = ''open'') (filter (recent now) (prs st)) =
      filter (\<lambda>p. recent now p \<and> state p = ''open'') (prs st)"
    by (simp add: conj_commute)
  have m: "filter (\<lambda>p. merged p = True) (filter (recent now) (prs st)) =
      filter (\<lambda>p. recent now p \<and> merged p) (prs st)"
    by (simp add: conj_commute)
  show ?thesis
    unfolding stats_computed_def Let_def o m
    by (simp add: foldl_plus_sum_list w c)
qed

section \<open>Records without a timestamp\<close>




section \<open>The activity feed\<close>

text \<open>
  C5. The claim has the feed be the first ten pull requests and issues, mapped to
  entries, merged, sorted by parsed time label and cut to five. The callback is written
  that way, but it calls \<open>formatTimeAgo\<close> and \<open>parseTimeAgo\<close>, which are declared
  below it: for the one merged pull request updated two hours ago, the specification's
  feed is the entry labelled "Merged" and "2 hours ago", and the computation throws a
  \<open>ReferenceError\<close> instead.
\<close>

theorem activities_computed_throws_on_pr:
  "activities_computed engine clock_nov \<lparr>issues = [], prs = [pr_merged], isLoading = False\<rparr> =
     Inl ReferenceError
   \<and> feed_spec clock_nov \<lparr>issues = [], prs = [pr_merged], isLoading = False\<rparr> =
     [\<lparr>a_id = 2021, a_type = Pr, a_number = 21, a_title = ''Fix login redirect'',
       a_label = Some ''Merged'', a_timeAgo = ''2 hours ago''\<rparr>]"
proof -
  have "formatTimeAgo clock_nov (Num 1699992800000) = ''2 hours ago''"
    by (simp add: formatTimeAgo_def Let_def clock_nov_def plural_def digits.simps digit_char_def)
  then have "feed_spec clock_nov \<lparr>issues = [], prs = [pr_merged], isLoading = False\<rparr> =
      [\<lparr>a_id = 2021, a_type = Pr, a_number = 21, a_title = ''Fix login redirect'',
        a_label = Some ''Merged'', a_timeAgo = ''2 hours ago''\<rparr>]"
    by (simp add: feed_spec_def pr_entry_spec_def pr_merged_def effective_time_def)
  then show ?thesis by (simp add: activities_computed_throws)
qed

section \<open>Relative time labels round trip\<close>

text \<open>
  C9. Parsing the label of a time gives a time in the same bucket (the same unit with
  the same count), and thereby with the same label. This holds for every time, also one
  after the clock, whose label is "just now".
\<close>

theorem relative_time_round_trip:
  "bucket now (parseTimeAgo now (formatTimeAgo now (Num t))) = bucket now t
   \<and> formatTimeAgo now (Num (parseTimeAgo now (formatTimeAgo now (Num t)))) = formatTimeAgo now (Num t)"
proof
  show b: "bucket now (parseTimeAgo now (formatTimeAgo now (Num t))) = bucket now t"
    by (rule bucket_round_trip)
  have "formatTimeAgo now (Num (parseTimeAgo now (formatTimeAgo now (Num t)))) =
      render (bucket now (parseTimeAgo now (formatTimeAgo now (Num t))))"
    by (rule format_bucket)
  also have "\<dots> = render (bucket now t)" by (simp only: b)
  also have "\<dots> = formatTimeAgo now (Num t)" by (rule format_bucket [symmetric])
  finally show "formatTimeAgo now (Num (parseTimeAgo now (formatTimeAgo now (Num t)))) =
      formatTimeAgo now (Num t)" .
qed

section \<open>The chart\<close>

text \<open>
  C6. When the offset of local time stays within a day, the applications of the six
  chart points add up to the comment counts of all issues whose effective timestamp
  lies between the start of the first month and the end of the last one: each month
  ends where the next one begins, and each month begins before it ends.
\<close>

theorem chart_applications_total:
  assumes "\<forall>t. \<bar>localTZA now t\<bar> \<le> 86400000"
  shows "sum_list (map c_applications (chartData_computed now st)) =
           sum_list (map comments_or_0
             (filter (\<lambda>i. js_ge (effective_time i) (monthDate now 0)
                          \<and> js_lt (effective_time i) (nextMonth now 5)) (issues st)))
         \<and> nextMonth now index = monthDate now (Suc index)
         \<and> js_lt (monthDate now index) (nextMonth now index)"
proof -
  define B where "B i = (case monthDate now i of NaN \<Rightarrow> 0 | Num a \<Rightarrow> a)" for i
  have step: "monthDate now i = Num (B i) \<and> nextMonth now i = Num (B (Suc i)) \<and> B i < B (Suc i)" for i
    using month_bounds_increase [OF assms, of i]
    by (auto simp add: B_def nextMonth_is_monthDate)
  have bucket: "in_month now i = (\<lambda>r. js_ge (effective_time r) (Num (B i))
      \<and> js_lt (effective_time r) (Num (B (Suc i))))" for i
    by (rule ext) (simp add: in_month_def Let_def step)
  have mono: "B i \<le> B (Suc i)" for i using step [of i] by simp
  have "sum_list (map c_applications (chartData_computed now st)) =
      (\<Sum>i\<leftarrow>[0..<6]. sum_list (map comments_or_0 (filter (in_month now i) (issues st))))"
    by (simp only: chart_applications)
  also have "\<dots> = sum_list (map comments_or_0
      (filter (\<lambda>r. js_ge (effective_time r) (Num (B 0)) \<and> js_lt (effective_time r) (Num (B 6)))
        (issues st)))"
    unfolding bucket
    using buckets_total [where B = B and n = 6 and f = comments_or_0 and g = effective_time
          and xs = "issues st"] mono
    by blast
  also have "Num (B 6) = nextMonth now 5" using step [of 5] by simp
  also have "Num (B 0) = monthDate now 0" using step [of 0] by simp
  finally have total: "sum_list (map c_applications (chartData_computed now st)) =
      sum_list (map comments_or_0
        (filter (\<lambda>i. js_ge (effective_time i) (monthDate now 0)
                     \<and> js_lt (effective_time i) (nextMonth now 5)) (issues st)))" .
  have "js_lt (monthDate now index) (nextMonth now index)"
    using step [of index] by simp
  with total show ?thesis by (simp add: nextMonth_is_monthDate)
qed

theorem chart_applications_total_witness:
  "(\<forall>t. \<bar>localTZA clock_nov t\<bar> \<le> 86400000)
   \<and> sum_list (map c_applications
        (chartData_computed clock_nov \<lparr>issues = [issue_ahead, issue_july], prs = [], isLoading = False\<rparr>)) = 5"
proof -
  have h: "\<forall>t. \<bar>localTZA clock_nov t\<bar> \<le> 86400000" by (simp add: clock_nov_def)
  have "monthDate clock_nov 0 = Num 1685577600000" "nextMonth clock_nov 5 = Num 1701388800000"
    by (simp_all add: monthDate_def nextMonth_def Date_local_def MakeDay_def DayFromYear_def
        month_first_day_def InLeapYear_def clock_nov_def Let_def)
  with chart_applications_total [OF h,
      of "\<lparr>issues = [issue_ahead, issue_july], prs = [], isLoading = False\<rparr>"] h
  show ?thesis
    by (simp add: issue_ahead_def issue_july_def effective_time_def comments_or_0_def)
qed

text \<open>For every clock the chart has six points, and their labels do not depend on it.\<close>

lemma chart_labels_constant:
  "length (chartData_computed now st) = 6
   \<and> map c_month (chartData_computed now st) = [''May'', ''Jun'', ''Jul'', ''Aug'', ''Sep'', ''Oct'']"
  by (simp add: chartData_computed_def Let_def)

text \<open>
  C7. The chart has six points whose buckets are the six months ending with the month
  of the clock, but their labels are the fixed list from "May" to "Oct". For a clock in
  January 2024 the six months are August 2023 to January 2024: the first bucket starts
  on 1 August 2023 and is labelled "May", and an issue updated in January 2024 with four
  comments is shown under "Oct".
\<close>

theorem chart_labels_january:
  "map c_month (chartData_computed clock_jan \<lparr>issues = [issue_january], prs = [], isLoading = False\<rparr>) =
     [''May'', ''Jun'', ''Jul'', ''Aug'', ''Sep'', ''Oct'']
   \<and> map (\<lambda>(y, m). month_name m) (trailing_months clock_jan) =
     [''Aug'', ''Sep'', ''Oct'', ''Nov'', ''Dec'', ''Jan'']
   \<and> monthDate clock_jan 0 = Date_local clock_jan 2023 7 1
   \<and> chartData_computed clock_jan \<lparr>issues = [issue_january], prs = [], isLoading = False\<rparr> ! 5 =
     \<lparr>c_month = ''Oct'', c_applications = 4, c_merged = 0\<rparr>"
proof -
  have b: "monthDate clock_jan 5 = Num 1704067200000" "nextMonth clock_jan 5 = Num 1706745600000"
      "monthDate clock_jan 0 = Num 1690848000000" "Date_local clock_jan 2023 7 1 = Num 1690848000000"
    by (simp_all add: monthDate_def nextMonth_def Date_local_def MakeDay_def DayFromYear_def
        month_first_day_def InLeapYear_def clock_jan_def Let_def)
  have l: "map c_month (chartData_computed clock_jan st) =
      [''May'', ''Jun'', ''Jul'', ''Aug'', ''Sep'', ''Oct'']" for st
    by (simp add: chartData_computed_def Let_def)
  have t: "map (\<lambda>(y, m). month_name m) (trailing_months clock_jan) =
      [''Aug'', ''Sep'', ''Oct'', ''Nov'', ''Dec'', ''Jan'']"
    by (simp add: trailing_months_def month_name_def clock_jan_def)
  have b5: "monthDate clock_jan (Suc (Suc (Suc (Suc (Suc 0))))) = Num 1704067200000"
      "nextMonth clock_jan (Suc (Suc (Suc (Suc (Suc 0))))) = Num 1706745600000"
    using b(1,2) by (simp_all add: eval_nat_numeral)
  have p: "chartData_computed clock_jan \<lparr>issues = [issue_january], prs = [], isLoading = False\<rparr> ! 5 =
      \<lparr>c_month = ''Oct'', c_applications = 4, c_merged = 0\<rparr>"
    by (simp add: chartData_computed_def Let_def in_month_def b5 issue_january_def
        effective_time_def comments_or_0_def)
  from b l t p show ?thesis by simp
qed

end
